theory Spec2Isabelle
  imports Main "HOL-Library.AList"
begin

section \<open>Values, dictionaries and errors of the served application\<close>

text \<open>
  The application (\<^verbatim>\<open>app/api.py\<close>) moves JSON-like Python values around: the performance
  metrics are a nested dictionary of numbers, the parameters are the attribute dictionary
  of a namespace, and every endpoint returns a dictionary.  A Python \<^verbatim>\<open>dict\<close> keeps its
  insertion order, so it is an association list here.  Floats are never computed with
  by this file; they are carried as an opaque numerator/denominator pair.
\<close>

datatype pyval =
    VNone
  | VBool bool
  | VInt int
  | VFloat int int
  | VStr string
  | VList "pyval list"
  | VDict "(string \<times> pyval) list"

type_synonym dict = "(string \<times> pyval) list"

text \<open>Every \<^verbatim>\<open>raise\<close> the file can reach is a value of this type.\<close>

datatype error =
    NameError string
  | KeyError string
  | AttributeError
  | OSError
  | ServiceFault

text \<open>\<^verbatim>\<open>d[k]\<close>: a missing key raises \<^verbatim>\<open>KeyError\<close>.\<close>

definition subscript :: "dict \<Rightarrow> string \<Rightarrow> error + pyval" where
  "subscript d k = (case map_of d k of None \<Rightarrow> Inl (KeyError k) | Some v \<Rightarrow> Inr v)"

text \<open>\<^verbatim>\<open>k in d\<close>.\<close>

definition contains :: "dict \<Rightarrow> string \<Rightarrow> bool" where
  "contains d k = (map_of d k \<noteq> None)"

text \<open>\<^verbatim>\<open>d[k] = v\<close>: an existing key keeps its position, a new key goes last.\<close>

definition setitem :: "dict \<Rightarrow> string \<Rightarrow> pyval \<Rightarrow> dict" where
  "setitem d k v = AList.update k v d"

text \<open>
  \<^verbatim>\<open>x.get(k, default)\<close>: only a dictionary has the method; on any other value the
  attribute lookup raises \<^verbatim>\<open>AttributeError\<close>.
\<close>

fun get :: "pyval \<Rightarrow> string \<Rightarrow> pyval \<Rightarrow> error + pyval" where
  "get (VDict d) k dflt = Inr (case map_of d k of None \<Rightarrow> dflt | Some v \<Rightarrow> v)"
| "get _ k dflt = Inl AttributeError"

text \<open>
  \<^verbatim>\<open>s.split(sep)\<close> for a one-character separator: every occurrence of the separator ends
  a piece, so a string with \<open>n\<close> separators has \<open>n + 1\<close> pieces, empty ones included.
  \<open>split_pieces\<close> returns the first piece and the list of the others.
\<close>

fun split_pieces :: "char \<Rightarrow> string \<Rightarrow> string \<times> string list" where
  "split_pieces sep [] = ([], [])"
| "split_pieces sep (c # cs) =
     (let (p, ps) = split_pieces sep cs
      in if c = sep then ([], p # ps) else (c # p, ps))"

definition str_split :: "string \<Rightarrow> char \<Rightarrow> string list" where
  "str_split s sep = (let (p, ps) = split_pieces sep s in p # ps)"

text \<open>\<^verbatim>\<open>HTTPStatus.OK\<close> is the integer 200 and its phrase is \<^verbatim>\<open>OK\<close>.\<close>

definition HTTPStatus_OK :: pyval where
  "HTTPStatus_OK = VInt 200"

definition HTTPStatus_OK_phrase :: pyval where
  "HTTPStatus_OK_phrase = VStr ''OK''"

section \<open>The application state and its collaborators\<close>

text \<open>
  The bundle that \<^verbatim>\<open>main.load_artifacts\<close> returns is read by this file only at its keys
  \<^verbatim>\<open>params\<close> and \<^verbatim>\<open>performance\<close>.  \<open>params\<close> is the attribute dictionary of the
  namespace stored there, that is, what \<^verbatim>\<open>vars(artifacts["params"])\<close> evaluates to.
\<close>

record artifact_bundle =
  params :: dict
  performance :: pyval

text \<open>
  The module's global \<^verbatim>\<open>artifacts\<close>: the name is unbound until the startup hook has
  assigned it, and reading an unbound global raises \<^verbatim>\<open>NameError\<close>.
\<close>

record globals =
  artifacts :: "artifact_bundle option"

definition read_artifacts :: "globals \<Rightarrow> error + artifact_bundle" where
  "read_artifacts g =
     (case artifacts g of None \<Rightarrow> Inl (NameError ''artifacts'') | Some a \<Rightarrow> Inr a)"

record request = method' :: string  url :: string

record text_item = text' :: string

record predict_payload = texts :: "text_item list"

text \<open>
  The startup hook.  \<open>main_load_artifacts\<close> is the external loading service, which may
  raise; \<open>run_id_txt\<close> is the content of the file \<^verbatim>\<open>run_id.txt\<close>, \<open>None\<close> when it
  cannot be opened.  The text read is handed to the service as it is.
\<close>

definition load_artifacts ::
  "(string \<Rightarrow> error + artifact_bundle) \<Rightarrow> string option \<Rightarrow> globals \<Rightarrow> error + globals" where
  "load_artifacts main_load_artifacts run_id_txt g =
     (case run_id_txt of
        None \<Rightarrow> Inl OSError
      | Some run_id \<Rightarrow>
          (case main_load_artifacts run_id of
             Inl e \<Rightarrow> Inl e
           | Inr a \<Rightarrow> Inr (g\<lparr>artifacts := Some a\<rparr>)))"

section \<open>The response envelope\<close>

text \<open>
  The decorator \<^verbatim>\<open>construct_response\<close>.  \<open>f\<close> is the decorated handler with its
  arguments other than the request already supplied; \<open>now\<close> is what
  \<^verbatim>\<open>datetime.now().isoformat()\<close> returns when the envelope is built.
\<close>

definition construct_response ::
  "(request \<Rightarrow> error + dict) \<Rightarrow> string \<Rightarrow> request \<Rightarrow> error + dict" where
  "construct_response f now request =
     (case f request of
        Inl e \<Rightarrow> Inl e
      | Inr results \<Rightarrow>
          (case subscript results ''message'' of
             Inl e \<Rightarrow> Inl e
           | Inr message \<Rightarrow>
               (case subscript results ''status-code'' of
                  Inl e \<Rightarrow> Inl e
                | Inr status_code \<Rightarrow>
                    (let response =
                       [(''message'', message),
                        (''method'', VStr (method' request)),
                        (''status-code'', status_code),
                        (''timestamp'', VStr now),
                        (''url'', VStr (url request))]
                     in if contains results ''data''
                        then (case subscript results ''data'' of
                                Inl e \<Rightarrow> Inl e
                              | Inr d \<Rightarrow> Inr (setitem response ''data'' d))
                        else Inr response))))"

section \<open>The handlers\<close>

text \<open>
  The handlers \<^verbatim>\<open>_index\<close>, \<^verbatim>\<open>_predict\<close>, \<^verbatim>\<open>_params\<close>, \<^verbatim>\<open>_param\<close> and
  \<^verbatim>\<open>_performance\<close> are \<open>api_index\<close> to \<open>api_performance\<close> here, since a name cannot
  start with an underscore; the fields \<open>method'\<close> and \<open>text'\<close> carry a prime because
  the plain words are reserved.  Each handler takes the request last, after the global
  state and its other arguments, so that the decorator receives a function of the request.
\<close>

definition api_index :: "request \<Rightarrow> error + dict" where
  "api_index request =
     Inr [(''message'', HTTPStatus_OK_phrase),
          (''status-code'', HTTPStatus_OK),
          (''data'', VDict [])]"

text \<open>
  \<open>predict\<close> is the external prediction service \<^verbatim>\<open>predict.predict\<close>.  Its argument
  \<^verbatim>\<open>artifacts\<close> is evaluated before the call, so an unbound global is raised first.
\<close>

definition api_predict ::
  "(string list \<Rightarrow> artifact_bundle \<Rightarrow> error + pyval list) \<Rightarrow> globals \<Rightarrow> predict_payload
     \<Rightarrow> request \<Rightarrow> error + dict" where
  "api_predict predict g payload request =
     (let txts = map text' (texts payload)
      in case read_artifacts g of
           Inl e \<Rightarrow> Inl e
         | Inr a \<Rightarrow>
             (case predict txts a of
                Inl e \<Rightarrow> Inl e
              | Inr predictions \<Rightarrow>
                  Inr [(''message'', HTTPStatus_OK_phrase),
                       (''status-code'', HTTPStatus_OK),
                       (''data'', VDict [(''predictions'', VList predictions)])]))"

definition api_params :: "globals \<Rightarrow> request \<Rightarrow> error + dict" where
  "api_params g request =
     (case read_artifacts g of
        Inl e \<Rightarrow> Inl e
      | Inr a \<Rightarrow>
          Inr [(''message'', HTTPStatus_OK_phrase),
               (''status-code'', HTTPStatus_OK),
               (''data'', VDict [(''params'', VDict (params a))])])"

definition api_param :: "globals \<Rightarrow> string \<Rightarrow> request \<Rightarrow> error + dict" where
  "api_param g param request =
     (case read_artifacts g of
        Inl e \<Rightarrow> Inl e
      | Inr a \<Rightarrow>
          (case get (VDict (params a)) param (VStr []) of
             Inl e \<Rightarrow> Inl e
           | Inr v \<Rightarrow>
               Inr [(''message'', HTTPStatus_OK_phrase),
                    (''status-code'', HTTPStatus_OK),
                    (''data'', VDict [(''params'', VDict [(param, v)])])]))"

text \<open>
  The loop of the performance handler,
  \<^verbatim>\<open>for key in keys: performance = performance.get(key, {})\<close>.
\<close>

fun descend :: "pyval \<Rightarrow> string list \<Rightarrow> error + pyval" where
  "descend perf [] = Inr perf"
| "descend perf (key # keys) =
     (case get perf key (VDict []) of
        Inl e \<Rightarrow> Inl e
      | Inr perf' \<Rightarrow> descend perf' keys)"

text \<open>The loop run on the pieces of a dot-separated path.\<close>

definition resolve :: "pyval \<Rightarrow> string \<Rightarrow> error + pyval" where
  "resolve perf path = descend perf (str_split path (CHR ''.''))"

text \<open>
  The two branches of \<^verbatim>\<open>if filter:\<close>.  An \<^verbatim>\<open>Optional[str]\<close> is false when it is
  \<^verbatim>\<open>None\<close> or the empty string.
\<close>

definition performance_data :: "pyval \<Rightarrow> string option \<Rightarrow> error + pyval" where
  "performance_data perf filter_arg =
     (case filter_arg of
        None \<Rightarrow> Inr (VDict [(''performance'', perf)])
      | Some flt \<Rightarrow>
          if flt \<noteq> []
          then (case resolve perf flt of
                  Inl e \<Rightarrow> Inl e
                | Inr perf' \<Rightarrow> Inr (VDict [(''performance'', VDict [(flt, perf')])]))
          else Inr (VDict [(''performance'', perf)]))"

definition api_performance :: "globals \<Rightarrow> string option \<Rightarrow> request \<Rightarrow> error + dict" where
  "api_performance g filter_arg request =
     (case read_artifacts g of
        Inl e \<Rightarrow> Inl e
      | Inr a \<Rightarrow>
          (case performance_data (performance a) filter_arg of
             Inl e \<Rightarrow> Inl e
           | Inr data \<Rightarrow>
               Inr [(''message'', HTTPStatus_OK_phrase),
                    (''status-code'', HTTPStatus_OK),
                    (''data'', data)]))"

text \<open>The five routes: each handler under the decorator.\<close>

definition route_index :: "string \<Rightarrow> request \<Rightarrow> error + dict" where
  "route_index now request = construct_response api_index now request"

definition route_predict ::
  "(string list \<Rightarrow> artifact_bundle \<Rightarrow> error + pyval list) \<Rightarrow> globals \<Rightarrow> string \<Rightarrow> request
     \<Rightarrow> predict_payload \<Rightarrow> error + dict" where
  "route_predict predict g now request payload =
     construct_response (api_predict predict g payload) now request"

definition route_params :: "globals \<Rightarrow> string \<Rightarrow> request \<Rightarrow> error + dict" where
  "route_params g now request = construct_response (api_params g) now request"

definition route_param :: "globals \<Rightarrow> string \<Rightarrow> request \<Rightarrow> string \<Rightarrow> error + dict" where
  "route_param g now request param = construct_response (api_param g param) now request"

definition route_performance ::
  "globals \<Rightarrow> string \<Rightarrow> request \<Rightarrow> string option \<Rightarrow> error + dict" where
  "route_performance g now request filter_arg =
     construct_response (api_performance g filter_arg) now request"

section \<open>The startup of the specification, and sample collaborators\<close>

text \<open>
  The specification describes an initialisation that trims the text of the identifier
  source before the loading service sees it.  \<open>strip\<close> and \<open>initialize\<close> follow the
  specification's words, to be compared with \<open>load_artifacts\<close> above.
  \<open>strip\<close> is \<^verbatim>\<open>str.strip()\<close> on ASCII text: it removes the leading and trailing
  white-space characters.
\<close>

definition whitespace :: "char list" where
  "whitespace =
     [CHR 0x20, CHR 0x09, CHR 0x0A, CHR 0x0B, CHR 0x0C, CHR 0x0D,
      CHR 0x1C, CHR 0x1D, CHR 0x1E, CHR 0x1F]"

definition is_space :: "char \<Rightarrow> bool" where
  "is_space c = (c \<in> set whitespace)"

definition strip :: "string \<Rightarrow> string" where
  "strip s = rev (dropWhile is_space (rev (dropWhile is_space s)))"

definition initialize ::
  "(string \<Rightarrow> error + artifact_bundle) \<Rightarrow> string option \<Rightarrow> globals \<Rightarrow> error + globals" where
  "initialize loading_service source g =
     (case source of
        None \<Rightarrow> Inl OSError
      | Some txt \<Rightarrow>
          (case loading_service (strip txt) of
             Inl e \<Rightarrow> Inl e
           | Inr a \<Rightarrow> Inr (g\<lparr>artifacts := Some a\<rparr>)))"

text \<open>
  Sample collaborators and inputs for the concrete instances below: a loading service
  that records the identifier it was called with in the bundle it returns, a prediction
  service that answers each text with a record of it, a store that was never
  initialised and one that was, and a request.
\<close>

definition echo_loader :: "string \<Rightarrow> error + artifact_bundle" where
  "echo_loader run_id =
     Inr \<lparr>params = [(''run_id'', VStr run_id)], performance = VDict []\<rparr>"

definition echo_predict :: "string list \<Rightarrow> artifact_bundle \<Rightarrow> error + pyval list" where
  "echo_predict txts a = Inr (map (\<lambda>t. VDict [(''input_text'', VStr t)]) txts)"

definition unbound :: globals where
  "unbound = \<lparr>artifacts = None\<rparr>"

definition sample_bundle :: artifact_bundle where
  "sample_bundle =
     \<lparr>params = [(''lr'', VFloat 1 10), (''num_epochs'', VInt 100)],
      performance =
        VDict [(''overall'', VDict [(''precision'', VFloat 9 10), (''num_samples'', VInt 218)]),
               (''class'', VDict [])]\<rparr>"

definition loaded :: globals where
  "loaded = \<lparr>artifacts = Some sample_bundle\<rparr>"

definition sample_request :: request where
  "sample_request = \<lparr>method' = ''GET'', url = ''http://localhost:5000/''\<rparr>"

definition sample_payload :: predict_payload where
  "sample_payload = \<lparr>texts =
        [\<lparr>text' = ''transfer learning''\<rparr>, \<lparr>text' = ''gans''\<rparr>]\<rparr>"

text \<open>A handler result or an envelope that reports success: message \<^verbatim>\<open>OK\<close>, status 200.\<close>

definition reports_OK :: "dict \<Rightarrow> bool" where
  "reports_OK r =
     (map_of r ''message'' = Some (VStr ''OK'') \<and> map_of r ''status-code'' = Some (VInt 200))"

section \<open>Splitting and descending\<close>

lemma split_pieces_append:
  "split_pieces sep (p @ sep # q) =
     (fst (split_pieces sep p),
      snd (split_pieces sep p) @ fst (split_pieces sep q) # snd (split_pieces sep q))"
  by (induction p) (auto simp: Let_def split: prod.splits)

lemma str_split_append:
  "str_split (p @ sep # q) sep = str_split p sep @ str_split q sep"
  by (simp add: str_split_def split_pieces_append split: prod.splits)

lemma split_pieces_no_sep: "sep \<notin> set s \<Longrightarrow> split_pieces sep s = (s, [])"
  by (induction s) auto

lemma str_split_no_sep: "sep \<notin> set s \<Longrightarrow> str_split s sep = [s]"
  by (simp add: str_split_def split_pieces_no_sep)

lemma str_split_nonempty: "str_split s sep \<noteq> []"
  by (simp add: str_split_def split: prod.splits)

lemma descend_append:
  "descend m (ks @ ks') = (case descend m ks of Inl e \<Rightarrow> Inl e | Inr v \<Rightarrow> descend v ks')"
  by (induction ks arbitrary: m) (auto split: sum.splits)

lemma descend_empty: "descend (VDict []) ks = Inr (VDict [])"
  by (induction ks) auto

lemma descend_non_dict:
  "\<forall>d. v \<noteq> VDict d \<Longrightarrow> ks \<noteq> [] \<Longrightarrow> descend v ks = Inl AttributeError"
  by (cases ks; cases v) auto

lemma resolve_append:
  "resolve m (p @ CHR ''.'' # q) =
     (case resolve m p of Inl e \<Rightarrow> Inl e | Inr v \<Rightarrow> resolve v q)"
  by (simp add: resolve_def str_split_append descend_append split: sum.splits)

lemma resolve_single:
  "CHR ''.'' \<notin> set k \<Longrightarrow> resolve m k = get m k (VDict [])"
  by (cases "get m k (VDict [])") (simp_all add: resolve_def str_split_no_sep)

lemma resolve_empty: "resolve (VDict []) q = Inr (VDict [])"
  by (simp add: resolve_def descend_empty)

lemma resolve_non_dict: "\<forall>d. v \<noteq> VDict d \<Longrightarrow> resolve v q = Inl AttributeError"
  by (simp add: resolve_def descend_non_dict str_split_nonempty)

section \<open>The decorator and the global\<close>

lemma construct_response_Inr:
  assumes "f request = Inr results"
    and "map_of results ''message'' = Some m"
    and "map_of results ''status-code'' = Some s"
  shows "construct_response f now request =
     Inr ([(''message'', m), (''method'', VStr (method' request)), (''status-code'', s),
           (''timestamp'', VStr now), (''url'', VStr (url request))]
          @ (case map_of results ''data'' of None \<Rightarrow> [] | Some d \<Rightarrow> [(''data'', d)]))"
  using assms
  by (simp add: construct_response_def subscript_def contains_def setitem_def
      split: option.splits)

lemma construct_response_handler:
  "f request = Inr [(''message'', m), (''status-code'', s), (''data'', d)] \<Longrightarrow>
   construct_response f now request =
     Inr [(''message'', m), (''method'', VStr (method' request)), (''status-code'', s),
          (''timestamp'', VStr now), (''url'', VStr (url request)), (''data'', d)]"
  by (simp add: construct_response_def subscript_def contains_def setitem_def)

lemma construct_response_Inl:
  "f request = Inl e \<Longrightarrow> construct_response f now request = Inl e"
  by (simp add: construct_response_def)

lemma construct_response_success:
  assumes "construct_response f now request = Inr response"
  shows "\<exists>results. f request = Inr results
           \<and> map_of response ''message'' = map_of results ''message''
           \<and> map_of response ''status-code'' = map_of results ''status-code''
           \<and> map_of results ''message'' \<noteq> None \<and> map_of results ''status-code'' \<noteq> None"
  using assms
  by (auto simp: construct_response_def subscript_def contains_def setitem_def Let_def
      split: sum.splits option.splits if_splits)

lemma read_artifacts_unbound:
  "artifacts g = None \<Longrightarrow> read_artifacts g = Inl (NameError ''artifacts'')"
  by (simp add: read_artifacts_def)

lemma api_performance_loaded:
  "artifacts g = Some a \<Longrightarrow>
   api_performance g filter_arg request =
     (case performance_data (performance a) filter_arg of
        Inl e \<Rightarrow> Inl e
      | Inr data \<Rightarrow>
          Inr [(''message'', HTTPStatus_OK_phrase), (''status-code'', HTTPStatus_OK),
               (''data'', data)])"
  by (simp add: api_performance_def read_artifacts_def)

lemma handler_results_report_OK:
  "api_index request = Inr r \<Longrightarrow> reports_OK r"
  "api_predict predict g payload request = Inr r \<Longrightarrow> reports_OK r"
  "api_params g request = Inr r \<Longrightarrow> reports_OK r"
  "api_param g param request = Inr r \<Longrightarrow> reports_OK r"
  "api_performance g filter_arg request = Inr r \<Longrightarrow> reports_OK r"
  by (auto simp: api_index_def api_predict_def api_params_def api_param_def
      api_performance_def reports_OK_def HTTPStatus_OK_def HTTPStatus_OK_phrase_def
      split: sum.splits)

lemma construct_response_reports_OK:
  assumes "construct_response f now request = Inr e"
    and "\<And>r. f request = Inr r \<Longrightarrow> reports_OK r"
  shows "reports_OK e"
proof -
  from construct_response_success [OF assms(1)] obtain results where
    "f request = Inr results"
    "map_of e ''message'' = map_of results ''message''"
    "map_of e ''status-code'' = map_of results ''status-code''"
    by blast
  with assms(2) [of results] show ?thesis
    by (simp add: reports_OK_def)
qed

section \<open>The nested-key filter\<close>

text \<open>
  On \<^verbatim>\<open>{"a": {"b": 1}}\<close> the path \<^verbatim>\<open>a.b.c\<close> reaches the scalar 1 with the piece
  \<^verbatim>\<open>c\<close> left over, and the lookup raises.
\<close>

theorem resolve_scalar_counterexample:
  "resolve (VDict [(''a'', VDict [(''b'', VInt 1)])]) ''a.b.c'' = Inl AttributeError
   \<and> resolve (VDict [(''a'', VDict [(''b'', VInt 1)])]) ''a.b.c'' \<noteq> Inr (VDict [])"
  by (simp add: resolve_def str_split_def)

text \<open>
  Claim C1, as amended.  Resolving a dot-separated path is the fold of
  \<^verbatim>\<open>.get(segment, {})\<close> over the pieces of the path: resolving \<open>p.q\<close> is resolving \<open>p\<close>
  and then \<open>q\<close> from the value reached; one piece on a mapping gives the stored value,
  or the empty mapping when the key is absent; from the empty mapping every further path
  gives the empty mapping again, so a path whose first piece is absent from a mapping
  resolves to the empty mapping; a path that resolves to a scalar returns that scalar.
  A value that is not a mapping has no \<^verbatim>\<open>get\<close>: descending from it, with any remaining
  path, raises \<^verbatim>\<open>AttributeError\<close> and does not return the empty mapping.
\<close>

theorem resolve_folds_get:
  "resolve m (p @ CHR ''.'' # q) =
     (case resolve m p of Inl e \<Rightarrow> Inl e | Inr v \<Rightarrow> resolve v q)
   \<and> (CHR ''.'' \<notin> set k \<longrightarrow>
        resolve (VDict d) k = Inr (case map_of d k of None \<Rightarrow> VDict [] | Some x \<Rightarrow> x))
   \<and> resolve (VDict []) q = Inr (VDict [])
   \<and> (CHR ''.'' \<notin> set k \<and> map_of d k = None \<longrightarrow>
        resolve (VDict d) (k @ CHR ''.'' # q) = Inr (VDict []))
   \<and> ((\<forall>d'. v \<noteq> VDict d') \<longrightarrow> resolve v q = Inl AttributeError)
   \<and> (resolve m p = Inr v \<and> (\<forall>d'. v \<noteq> VDict d') \<longrightarrow>
        resolve m (p @ CHR ''.'' # q) = Inl AttributeError)"
  by (simp add: resolve_append resolve_single resolve_empty resolve_non_dict)

text \<open>A concrete instance of \<open>resolve_folds_get\<close>.\<close>

theorem resolve_folds_get_witness:
  "CHR ''.'' \<notin> set ''x''
   \<and> map_of [(''a'', VDict [(''b'', VInt 1)])] ''x'' = None
   \<and> (\<forall>d'. VInt 1 \<noteq> VDict d')
   \<and> resolve (VDict [(''a'', VDict [(''b'', VInt 1)])]) ''a.b'' = Inr (VInt 1)
   \<and> resolve (VDict [(''a'', VDict [(''b'', VInt 1)])]) ''x'' = Inr (VDict [])
   \<and> resolve (VDict [(''a'', VDict [(''b'', VInt 1)])]) ''x.c'' = Inr (VDict [])
   \<and> resolve (VInt 1) ''c'' = Inl AttributeError
   \<and> resolve (VDict [(''a'', VDict [(''b'', VInt 1)])]) ''a.b.c'' = Inl AttributeError"
proof -
  have ab: "resolve (VDict [(''a'', VDict [(''b'', VInt 1)])]) ''a.b'' = Inr (VInt 1)"
    by (simp add: resolve_def str_split_def)
  show ?thesis
    using ab resolve_folds_get
      [where m = "VDict [(''a'', VDict [(''b'', VInt 1)])]" and p = "''a.b''" and q = "''c''"
         and k = "''x''" and d = "[(''a'', VDict [(''b'', VInt 1)])]" and v = "VInt 1"]
    by simp
qed

section \<open>Startup\<close>

text \<open>
  The startup hook does not trim.  With a file that holds \<^verbatim>\<open>abc\<close> and a newline, the
  loading service receives the newline too, where the trimmed identifier is \<^verbatim>\<open>abc\<close>.
\<close>

theorem load_artifacts_untrimmed_counterexample:
  "load_artifacts echo_loader (Some (''abc'' @ [CHR 0x0A])) unbound =
     Inr \<lparr>artifacts =
            Some \<lparr>params = [(''run_id'', VStr (''abc'' @ [CHR 0x0A]))],
                  performance = VDict []\<rparr>\<rparr>
   \<and> strip (''abc'' @ [CHR 0x0A]) = ''abc''
   \<and> load_artifacts echo_loader (Some (''abc'' @ [CHR 0x0A])) unbound
       \<noteq> initialize echo_loader (Some (''abc'' @ [CHR 0x0A])) unbound"
  by (simp add: load_artifacts_def initialize_def echo_loader_def unbound_def strip_def
      is_space_def whitespace_def)

text \<open>
  Claim C2, as amended.  During startup the text read from the identifier file is passed
  to the loading service exactly as read, surrounding white space and newlines included:
  the outcome of the hook is the outcome of the service on that text, stored as the
  global on success.
\<close>

theorem load_artifacts_passes_text_verbatim:
  "load_artifacts main_load_artifacts (Some run_id_txt) g =
     (case main_load_artifacts run_id_txt of
        Inl e \<Rightarrow> Inl e
      | Inr a \<Rightarrow> Inr (g\<lparr>artifacts := Some a\<rparr>))"
  by (simp add: load_artifacts_def)

text \<open>
  Claim C9.  When the loading service succeeds on the identifier, the startup hook
  succeeds, and the store read afterwards is exactly the bundle the service returned.
\<close>

theorem store_holds_loaded_bundle:
  assumes "main_load_artifacts run_id = Inr a"
  shows "\<exists>g'. load_artifacts main_load_artifacts (Some run_id) g = Inr g'
          \<and> artifacts g' = Some a \<and> read_artifacts g' = Inr a"
  using assms by (simp add: load_artifacts_def read_artifacts_def)

text \<open>A concrete instance of \<open>store_holds_loaded_bundle\<close>.\<close>

theorem store_holds_loaded_bundle_witness:
  "echo_loader ''run1'' =
     Inr \<lparr>params = [(''run_id'', VStr ''run1'')], performance = VDict []\<rparr>
   \<and> (\<exists>g'. load_artifacts echo_loader (Some ''run1'') unbound = Inr g'
          \<and> artifacts g' =
                Some \<lparr>params = [(''run_id'', VStr ''run1'')], performance = VDict []\<rparr>
          \<and> read_artifacts g' =
                Inr \<lparr>params = [(''run_id'', VStr ''run1'')], performance = VDict []\<rparr>)"
proof -
  have a: "echo_loader ''run1'' =
     Inr \<lparr>params = [(''run_id'', VStr ''run1'')], performance = VDict []\<rparr>"
    by (simp add: echo_loader_def)
  show ?thesis
    using a store_holds_loaded_bundle
      [where main_load_artifacts = echo_loader and run_id = "''run1''" and g = unbound, OF a] by simp
qed

text \<open>
  Claim C8.  Before the startup hook has bound the global, each handler that reads it
  (predict, list params, single param, performance) raises \<^verbatim>\<open>NameError\<close>, alone and under
  the decorator; none returns a response.
\<close>

theorem handlers_raise_before_startup:
  assumes "artifacts g = None"
  shows "api_predict predict g payload request = Inl (NameError ''artifacts'')
       \<and> api_params g request = Inl (NameError ''artifacts'')
       \<and> api_param g param request = Inl (NameError ''artifacts'')
       \<and> api_performance g filter_arg request = Inl (NameError ''artifacts'')
       \<and> route_predict predict g now request payload = Inl (NameError ''artifacts'')
       \<and> route_params g now request = Inl (NameError ''artifacts'')
       \<and> route_param g now request param = Inl (NameError ''artifacts'')
       \<and> route_performance g now request filter_arg = Inl (NameError ''artifacts'')"
proof -
  have raw: "api_predict predict g payload request = Inl (NameError ''artifacts'')"
    "api_params g request = Inl (NameError ''artifacts'')"
    "api_param g param request = Inl (NameError ''artifacts'')"
    "api_performance g filter_arg request = Inl (NameError ''artifacts'')"
    using assms
    by (simp_all add: api_predict_def api_params_def api_param_def api_performance_def
        read_artifacts_unbound)
  show ?thesis
    by (simp add: raw route_predict_def route_params_def route_param_def
        route_performance_def construct_response_Inl)
qed

text \<open>A concrete instance of \<open>handlers_raise_before_startup\<close>.\<close>

theorem handlers_raise_before_startup_witness:
  "artifacts unbound = None
   \<and> api_predict echo_predict unbound sample_payload sample_request = Inl (NameError ''artifacts'')
   \<and> api_params unbound sample_request = Inl (NameError ''artifacts'')
   \<and> api_param unbound ''lr'' sample_request = Inl (NameError ''artifacts'')
   \<and> api_performance unbound None sample_request = Inl (NameError ''artifacts'')
   \<and> route_performance unbound ''t'' sample_request (Some ''overall'') = Inl (NameError ''artifacts'')"
proof -
  have a: "artifacts unbound = None"
    by (simp add: unbound_def)
  show ?thesis
    using a handlers_raise_before_startup [OF a, of echo_predict sample_payload sample_request
        "''lr''" None "''t''"]
      handlers_raise_before_startup [OF a, of echo_predict sample_payload sample_request
        "''lr''" "Some ''overall''" "''t''"]
    by simp
qed

section \<open>The handlers and their routes\<close>

text \<open>
  Not every non-empty filter gives data.  On the sample bundle the filter
  \<^verbatim>\<open>overall.precision.x\<close> reaches the number stored at \<^verbatim>\<open>overall.precision\<close> with the
  piece \<^verbatim>\<open>x\<close> left over; the lookup raises and so do the handler and its route.
\<close>

theorem performance_filter_overdescent_counterexample:
  "api_performance loaded (Some ''overall.precision.x'') sample_request = Inl AttributeError
   \<and> route_performance loaded ''t'' sample_request (Some ''overall.precision.x'') =
       Inl AttributeError"
proof -
  have raw: "api_performance loaded (Some ''overall.precision.x'') sample_request =
               Inl AttributeError"
    by (simp add: api_performance_def read_artifacts_def loaded_def sample_bundle_def
        performance_data_def resolve_def str_split_def)
  show ?thesis
    by (simp add: raw route_performance_def construct_response_Inl)
qed

text \<open>
  Claim C3, as amended.  For a non-empty filter \<open>flt\<close>, the performance handler resolves
  \<open>flt\<close> against the stored performance mapping.  When the resolution gives a value
  \<open>v\<close>, the handler returns the data \<^verbatim>\<open>{"performance": {flt: v}}\<close>: the only key of the
  inner mapping is the filter string itself, and the decorated route carries the same
  data.  When the resolution raises, the handler and its route raise the same error and
  return no data.
\<close>

theorem performance_keyed_by_filter:
  assumes "artifacts g = Some a" and "flt \<noteq> []"
  shows "(resolve (performance a) flt = Inr v \<longrightarrow>
            api_performance g (Some flt) request =
              Inr [(''message'', VStr ''OK''), (''status-code'', VInt 200),
                   (''data'', VDict [(''performance'', VDict [(flt, v)])])]
            \<and> route_performance g now request (Some flt) =
              Inr [(''message'', VStr ''OK''), (''method'', VStr (method' request)),
                   (''status-code'', VInt 200), (''timestamp'', VStr now),
                   (''url'', VStr (url request)),
                   (''data'', VDict [(''performance'', VDict [(flt, v)])])])
         \<and> (resolve (performance a) flt = Inl e \<longrightarrow>
            api_performance g (Some flt) request = Inl e
            \<and> route_performance g now request (Some flt) = Inl e)"
proof (intro conjI impI)
  assume v: "resolve (performance a) flt = Inr v"
  show raw: "api_performance g (Some flt) request =
           Inr [(''message'', VStr ''OK''), (''status-code'', VInt 200),
                (''data'', VDict [(''performance'', VDict [(flt, v)])])]"
    using assms v
    by (simp add: api_performance_loaded performance_data_def HTTPStatus_OK_def
        HTTPStatus_OK_phrase_def)
  show "route_performance g now request (Some flt) =
           Inr [(''message'', VStr ''OK''), (''method'', VStr (method' request)),
                (''status-code'', VInt 200), (''timestamp'', VStr now),
                (''url'', VStr (url request)),
                (''data'', VDict [(''performance'', VDict [(flt, v)])])]"
    by (simp add: raw route_performance_def construct_response_handler)
next
  assume e: "resolve (performance a) flt = Inl e"
  show raw: "api_performance g (Some flt) request = Inl e"
    using assms e by (simp add: api_performance_loaded performance_data_def)
  show "route_performance g now request (Some flt) = Inl e"
    by (simp add: raw route_performance_def construct_response_Inl)
qed

text \<open>A concrete instance of \<open>performance_keyed_by_filter\<close>.\<close>

theorem performance_keyed_by_filter_witness:
  "artifacts loaded = Some sample_bundle
   \<and> ''overall.precision'' \<noteq> [] \<and> ''overall.precision.x'' \<noteq> []
   \<and> resolve (performance sample_bundle) ''overall.precision'' = Inr (VFloat 9 10)
   \<and> resolve (performance sample_bundle) ''overall.precision.x'' = Inl AttributeError
   \<and> api_performance loaded (Some ''overall.precision'') sample_request =
       Inr [(''message'', VStr ''OK''), (''status-code'', VInt 200),
            (''data'', VDict [(''performance'', VDict [(''overall.precision'', VFloat 9 10)])])]
   \<and> route_performance loaded ''t'' sample_request (Some ''overall.precision'') =
       Inr [(''message'', VStr ''OK''), (''method'', VStr (method' sample_request)),
            (''status-code'', VInt 200), (''timestamp'', VStr ''t''),
            (''url'', VStr (url sample_request)),
            (''data'', VDict [(''performance'', VDict [(''overall.precision'', VFloat 9 10)])])]
   \<and> api_performance loaded (Some ''overall.precision.x'') sample_request =
       Inl AttributeError"
proof -
  have a: "artifacts loaded = Some sample_bundle"
    by (simp add: loaded_def)
  have b: "''overall.precision'' \<noteq> []" and b': "''overall.precision.x'' \<noteq> []"
    by simp_all
  have c: "resolve (performance sample_bundle) ''overall.precision'' = Inr (VFloat 9 10)"
    by (simp add: sample_bundle_def resolve_def str_split_def)
  have c': "resolve (performance sample_bundle) ''overall.precision.x'' = Inl AttributeError"
    by (simp add: sample_bundle_def resolve_def str_split_def)
  show ?thesis
    using a c c'
      performance_keyed_by_filter
        [OF a b, where v = "VFloat 9 10" and request = sample_request and now = "''t''"]
      performance_keyed_by_filter
        [OF a b', where e = AttributeError and request = sample_request and now = "''t''"]
    by simp
qed

text \<open>
  Claim C4.  Called with no filter or with the empty string, the performance handler
  returns the data \<^verbatim>\<open>{"performance": p}\<close>, where \<open>p\<close> is the whole stored performance
  value, unchanged.
\<close>

theorem performance_unfiltered:
  assumes "artifacts g = Some a"
  shows "api_performance g None request =
           Inr [(''message'', VStr ''OK''), (''status-code'', VInt 200),
                (''data'', VDict [(''performance'', performance a)])]
         \<and> api_performance g (Some []) request =
           Inr [(''message'', VStr ''OK''), (''status-code'', VInt 200),
                (''data'', VDict [(''performance'', performance a)])]
         \<and> route_performance g now request None =
           Inr [(''message'', VStr ''OK''), (''method'', VStr (method' request)),
                (''status-code'', VInt 200), (''timestamp'', VStr now),
                (''url'', VStr (url request)),
                (''data'', VDict [(''performance'', performance a)])]
         \<and> route_performance g now request (Some []) =
           Inr [(''message'', VStr ''OK''), (''method'', VStr (method' request)),
                (''status-code'', VInt 200), (''timestamp'', VStr now),
                (''url'', VStr (url request)),
                (''data'', VDict [(''performance'', performance a)])]"
proof -
  have raw: "api_performance g filter_arg request =
           Inr [(''message'', VStr ''OK''), (''status-code'', VInt 200),
                (''data'', VDict [(''performance'', performance a)])]"
    if "filter_arg = None \<or> filter_arg = Some []" for filter_arg
    using assms that
    by (auto simp: api_performance_loaded performance_data_def HTTPStatus_OK_def
        HTTPStatus_OK_phrase_def)
  show ?thesis
    by (simp add: raw route_performance_def construct_response_handler)
qed

text \<open>A concrete instance of \<open>performance_unfiltered\<close>.\<close>

theorem performance_unfiltered_witness:
  "artifacts loaded = Some sample_bundle
   \<and> api_performance loaded None sample_request =
       Inr [(''message'', VStr ''OK''), (''status-code'', VInt 200),
            (''data'', VDict [(''performance'', performance sample_bundle)])]
   \<and> api_performance loaded (Some []) sample_request =
       Inr [(''message'', VStr ''OK''), (''status-code'', VInt 200),
            (''data'', VDict [(''performance'', performance sample_bundle)])]"
proof -
  have a: "artifacts loaded = Some sample_bundle"
    by (simp add: loaded_def)
  show ?thesis
    using a performance_unfiltered [OF a, of sample_request "''t''"] by simp
qed

text \<open>
  Claim C5.  For every name, the empty one and absent ones included, the single-parameter
  handler returns normally with the data \<^verbatim>\<open>{"params": {name: v}}\<close>, where \<open>v\<close> is the
  stored value of the name, or the empty string when the name is absent.
\<close>

theorem param_lookup_never_raises:
  assumes "artifacts g = Some a"
  shows "api_param g name request =
           Inr [(''message'', VStr ''OK''), (''status-code'', VInt 200),
                (''data'', VDict [(''params'',
                   VDict [(name, case map_of (params a) name of None \<Rightarrow> VStr [] | Some v \<Rightarrow> v)])])]
         \<and> route_param g now request name =
           Inr [(''message'', VStr ''OK''), (''method'', VStr (method' request)),
                (''status-code'', VInt 200), (''timestamp'', VStr now),
                (''url'', VStr (url request)),
                (''data'', VDict [(''params'',
                   VDict [(name, case map_of (params a) name of None \<Rightarrow> VStr [] | Some v \<Rightarrow> v)])])]"
proof -
  have raw: "api_param g name request =
           Inr [(''message'', VStr ''OK''), (''status-code'', VInt 200),
                (''data'', VDict [(''params'',
                   VDict [(name, case map_of (params a) name of None \<Rightarrow> VStr [] | Some v \<Rightarrow> v)])])]"
    using assms
    by (simp add: api_param_def read_artifacts_def HTTPStatus_OK_def HTTPStatus_OK_phrase_def)
  show ?thesis
    by (simp add: raw route_param_def construct_response_handler)
qed

text \<open>A concrete instance of \<open>param_lookup_never_raises\<close>.\<close>

theorem param_lookup_never_raises_witness:
  "artifacts loaded = Some sample_bundle
   \<and> api_param loaded [] sample_request =
       Inr [(''message'', VStr ''OK''), (''status-code'', VInt 200),
            (''data'', VDict [(''params'', VDict [([], VStr [])])])]
   \<and> api_param loaded ''lr'' sample_request =
       Inr [(''message'', VStr ''OK''), (''status-code'', VInt 200),
            (''data'', VDict [(''params'', VDict [(''lr'', VFloat 1 10)])])]"
proof -
  have a: "artifacts loaded = Some sample_bundle"
    by (simp add: loaded_def)
  show ?thesis
    using a param_lookup_never_raises [OF a, of "[]" sample_request "''t''"]
      param_lookup_never_raises [OF a, of "''lr''" sample_request "''t''"]
    by (simp add: sample_bundle_def)
qed

text \<open>
  Claim C7.  The predict handler takes the texts of the payload in order and calls the
  prediction service on them with the stored bundle.  When the service answers that call
  with a list \<open>rs\<close> of one result per text, the handler returns the data
  \<^verbatim>\<open>{"predictions": rs}\<close>, the list as the service gave it, as long as the list of inputs.
\<close>

theorem predict_passes_results_through:
  assumes "artifacts g = Some a"
    and "predict (map text' (texts payload)) a = Inr rs"
    and "length rs = length (map text' (texts payload))"
  shows "api_predict predict g payload request =
           Inr [(''message'', VStr ''OK''), (''status-code'', VInt 200),
                (''data'', VDict [(''predictions'', VList rs)])]
         \<and> route_predict predict g now request payload =
           Inr [(''message'', VStr ''OK''), (''method'', VStr (method' request)),
                (''status-code'', VInt 200), (''timestamp'', VStr now),
                (''url'', VStr (url request)),
                (''data'', VDict [(''predictions'', VList rs)])]
         \<and> length rs = length (texts payload)"
proof -
  have raw: "api_predict predict g payload request =
           Inr [(''message'', VStr ''OK''), (''status-code'', VInt 200),
                (''data'', VDict [(''predictions'', VList rs)])]"
    using assms(1,2)
    by (simp add: api_predict_def read_artifacts_def HTTPStatus_OK_def HTTPStatus_OK_phrase_def)
  show ?thesis
    using assms(3) by (simp add: raw route_predict_def construct_response_handler)
qed

text \<open>A concrete instance of \<open>predict_passes_results_through\<close>.\<close>

theorem predict_passes_results_through_witness:
  "artifacts loaded = Some sample_bundle
   \<and> echo_predict (map text' (texts sample_payload)) sample_bundle =
        Inr [VDict [(''input_text'', VStr ''transfer learning'')],
             VDict [(''input_text'', VStr ''gans'')]]
   \<and> api_predict echo_predict loaded sample_payload sample_request =
        Inr [(''message'', VStr ''OK''), (''status-code'', VInt 200),
             (''data'', VDict [(''predictions'',
                VList [VDict [(''input_text'', VStr ''transfer learning'')],
                       VDict [(''input_text'', VStr ''gans'')]])])]
   \<and> length (texts sample_payload) = 2"
proof -
  have a: "artifacts loaded = Some sample_bundle"
    by (simp add: loaded_def)
  have b: "echo_predict (map text' (texts sample_payload)) sample_bundle =
        Inr [VDict [(''input_text'', VStr ''transfer learning'')],
             VDict [(''input_text'', VStr ''gans'')]]"
    by (simp add: echo_predict_def sample_payload_def)
  have c: "length [VDict [(''input_text'', VStr ''transfer learning'')],
             VDict [(''input_text'', VStr ''gans'')]] = length (map text' (texts sample_payload))"
    by (simp add: sample_payload_def)
  show ?thesis
    using a b predict_passes_results_through
      [where predict = echo_predict and payload = sample_payload and request = sample_request
         and now = "''t''", OF a b c]
    by simp
qed

text \<open>
  Claim C6.  For a handler result with a message and a status code, the envelope has
  exactly the keys message, method, status-code, timestamp and url, and the key data
  exactly when the result has it; the data value is the result's, unchanged; message and
  status code are the result's; method and url are the request's.
\<close>

theorem envelope_fields:
  assumes "f request = Inr results"
    and "map_of results ''message'' = Some m"
    and "map_of results ''status-code'' = Some s"
  shows "\<exists>response. construct_response f now request = Inr response
           \<and> distinct (map fst response)
           \<and> set (map fst response) =
               {''message'', ''method'', ''status-code'', ''timestamp'', ''url''}
               \<union> (if contains results ''data'' then {''data''} else {})
           \<and> map_of response ''data'' = map_of results ''data''
           \<and> map_of response ''message'' = Some m
           \<and> map_of response ''status-code'' = Some s
           \<and> map_of response ''method'' = Some (VStr (method' request))
           \<and> map_of response ''url'' = Some (VStr (url request))
           \<and> map_of response ''timestamp'' = Some (VStr now)"
proof (cases "map_of results ''data''")
  case None
  with construct_response_Inr [where f = f, OF assms] show ?thesis
    by (simp add: contains_def)
next
  case (Some d)
  with construct_response_Inr [where f = f, OF assms] show ?thesis
    by (simp add: contains_def insert_commute)
qed

text \<open>A concrete instance of \<open>envelope_fields\<close>.\<close>

theorem envelope_fields_witness:
  "api_index sample_request =
     Inr [(''message'', VStr ''OK''), (''status-code'', VInt 200), (''data'', VDict [])]
   \<and> (\<exists>response. construct_response api_index ''2026-01-01T00:00:00'' sample_request = Inr response
           \<and> distinct (map fst response)
           \<and> set (map fst response) =
               {''message'', ''method'', ''status-code'', ''timestamp'', ''url'', ''data''}
           \<and> map_of response ''data'' = Some (VDict [])
           \<and> map_of response ''message'' = Some (VStr ''OK'')
           \<and> map_of response ''status-code'' = Some (VInt 200)
           \<and> map_of response ''method'' = Some (VStr ''GET'')
           \<and> map_of response ''url'' = Some (VStr ''http://localhost:5000/'')
           \<and> map_of response ''timestamp'' = Some (VStr ''2026-01-01T00:00:00''))"
proof -
  have a: "api_index sample_request =
             Inr [(''message'', VStr ''OK''), (''status-code'', VInt 200), (''data'', VDict [])]"
    by (simp add: api_index_def HTTPStatus_OK_def HTTPStatus_OK_phrase_def)
  have b: "map_of [(''message'', VStr ''OK''), (''status-code'', VInt 200), (''data'', VDict [])]
             ''message'' = Some (VStr ''OK'')"
    by simp
  have c: "map_of [(''message'', VStr ''OK''), (''status-code'', VInt 200), (''data'', VDict [])]
             ''status-code'' = Some (VInt 200)"
    by simp
  show ?thesis
    using a envelope_fields [where f = api_index, OF a b c, of "''2026-01-01T00:00:00''"]
    by (simp add: contains_def sample_request_def insert_commute)
qed

text \<open>
  Claim C10.  Whenever one of the handlers returns (health check, predict, list params,
  single param, performance), its result has message \<^verbatim>\<open>OK\<close> and status code 200, and so
  has the envelope of its route.
\<close>

theorem every_handler_reports_OK:
  "(api_index request = Inr ra \<longrightarrow> reports_OK ra)
   \<and> (api_predict predict g payload request = Inr rb \<longrightarrow> reports_OK rb)
   \<and> (api_params g request = Inr rc \<longrightarrow> reports_OK rc)
   \<and> (api_param g param request = Inr rd \<longrightarrow> reports_OK rd)
   \<and> (api_performance g filter_arg request = Inr re \<longrightarrow> reports_OK re)
   \<and> (route_index now request = Inr ea \<longrightarrow> reports_OK ea)
   \<and> (route_predict predict g now request payload = Inr eb \<longrightarrow> reports_OK eb)
   \<and> (route_params g now request = Inr ec \<longrightarrow> reports_OK ec)
   \<and> (route_param g now request param = Inr ed \<longrightarrow> reports_OK ed)
   \<and> (route_performance g now request filter_arg = Inr ee \<longrightarrow> reports_OK ee)"
  by (auto simp: route_index_def route_predict_def route_params_def route_param_def
      route_performance_def
      intro: handler_results_report_OK
      elim!: construct_response_reports_OK)

text \<open>A concrete instance of \<open>every_handler_reports_OK\<close>.\<close>

theorem every_handler_reports_OK_witness:
  "(\<exists>r. api_index sample_request = Inr r \<and> reports_OK r)
   \<and> (\<exists>r. api_predict echo_predict loaded sample_payload sample_request = Inr r
          \<and> reports_OK r)
   \<and> (\<exists>r. api_params loaded sample_request = Inr r \<and> reports_OK r)
   \<and> (\<exists>r. api_param loaded ''lr'' sample_request = Inr r \<and> reports_OK r)
   \<and> (\<exists>r. api_performance loaded (Some ''overall.precision'') sample_request = Inr r
          \<and> reports_OK r)
   \<and> (\<exists>e. route_index ''t'' sample_request = Inr e \<and> reports_OK e)
   \<and> (\<exists>e. route_predict echo_predict loaded ''t'' sample_request sample_payload = Inr e
          \<and> reports_OK e)
   \<and> (\<exists>e. route_params loaded ''t'' sample_request = Inr e \<and> reports_OK e)
   \<and> (\<exists>e. route_param loaded ''t'' sample_request ''lr'' = Inr e \<and> reports_OK e)
   \<and> (\<exists>e. route_performance loaded ''t'' sample_request (Some ''overall.precision'') = Inr e
          \<and> reports_OK e)"
proof -
  have st: "read_artifacts loaded = Inr sample_bundle"
    by (simp add: read_artifacts_def loaded_def)
  have pd: "performance_data (performance sample_bundle) (Some ''overall.precision'') =
              Inr (VDict [(''performance'', VDict [(''overall.precision'', VFloat 9 10)])])"
    by (simp add: performance_data_def sample_bundle_def resolve_def str_split_def)
  obtain ra where ra: "api_index sample_request = Inr ra"
    by (simp add: api_index_def)
  obtain rb where rb: "api_predict echo_predict loaded sample_payload sample_request = Inr rb"
    by (simp add: api_predict_def st echo_predict_def)
  obtain rc where rc: "api_params loaded sample_request = Inr rc"
    by (simp add: api_params_def st)
  obtain rd where rd: "api_param loaded ''lr'' sample_request = Inr rd"
    by (simp add: api_param_def st)
  obtain re where re: "api_performance loaded (Some ''overall.precision'') sample_request = Inr re"
    by (simp add: api_performance_def st pd)
  obtain ea where ea: "route_index ''t'' sample_request = Inr ea"
    by (simp add: route_index_def api_index_def construct_response_handler)
  obtain eb where eb:
    "route_predict echo_predict loaded ''t'' sample_request sample_payload = Inr eb"
    by (simp add: route_predict_def api_predict_def st echo_predict_def
        construct_response_handler)
  obtain ec where ec: "route_params loaded ''t'' sample_request = Inr ec"
    by (simp add: route_params_def api_params_def st construct_response_handler)
  obtain ed where ed: "route_param loaded ''t'' sample_request ''lr'' = Inr ed"
    by (simp add: route_param_def api_param_def st construct_response_handler)
  obtain ee where ee:
    "route_performance loaded ''t'' sample_request (Some ''overall.precision'') = Inr ee"
    by (simp add: route_performance_def api_performance_def st pd construct_response_handler)
  show ?thesis
    using ra rb rc rd re ea eb ec ed ee
      every_handler_reports_OK
        [where request = sample_request and g = loaded and predict = echo_predict
           and payload = sample_payload and param = "''lr''"
           and filter_arg = "Some ''overall.precision''" and now = "''t''"
           and ra = ra and rb = rb and rc = rc and rd = rd and re = re
           and ea = ea and eb = eb and ec = ec and ed = ed and ee = ee]
    by simp
qed

end
